theory Spec2Isabelle
  imports Complex_Main "HOL-Library.Char_ord" "HOL-Library.List_Lexorder" "HOL-Library.Sublist"
begin

section \<open>The find-match handler of the dating application\<close>

text \<open>
  The handler of \<^verbatim>\<open>supabase/functions/find-match/index.ts\<close> runs a fixed sequence of
  calls against the identity service and the tables \<^verbatim>\<open>profiles\<close> and \<^verbatim>\<open>matches\<close>.
  The tables are an explicit state that the handler takes and returns; everything the
  handler does not control (the verdict of the identity service, a storage call that
  reports an error, which row a \<^verbatim>\<open>limit(1)\<close> query without ordering returns, clocks and
  generated keys) is read from an environment record, so that a theorem about every
  environment covers every behaviour of the collaborators.

  Identities are UUIDs in their textual form. The handler compares them with the
  \<^verbatim>\<open><\<close> of JavaScript strings, which is the lexicographic order on code units; this is
  the order of \<^typ>\<open>string\<close> given by the two library theories imported above.
\<close>

subsection \<open>Rows of the two tables\<close>

text \<open>
  Of a row of \<^verbatim>\<open>profiles\<close> the columns that the handler filters on, selects or updates.
\<close>

record profile =
  p_id :: string
  p_name :: string
  p_bio :: "string option"
  p_age :: "int option"
  p_location :: "string option"
  p_gender :: "string option"
  p_interests :: string
  is_active :: bool
  is_searching :: bool
  p_updated_at :: string

text \<open>The column \<^verbatim>\<open>status\<close> of \<^verbatim>\<open>matches\<close> is restricted to four values by its CHECK.\<close>

datatype match_status = Pending | Matched | Rejected | Blocked

record match_row =
  m_id :: string
  profile1_id :: string
  profile2_id :: string
  m_status :: match_status
  match_score :: "rat option"
  m_created_at :: string
  m_updated_at :: string

record db =
  profiles :: "profile list"
  matches :: "match_row list"

text \<open>The columns named by the \<^verbatim>\<open>select\<close> of the candidate query.\<close>

record candidate =
  c_id :: string
  c_name :: string
  c_bio :: "string option"
  c_age :: "int option"
  c_location :: "string option"
  c_gender :: "string option"
  c_interests :: string

definition select_columns :: "profile \<Rightarrow> candidate" where
  "select_columns p =
     \<lparr>c_id = p_id p, c_name = p_name p, c_bio = p_bio p, c_age = p_age p,
      c_location = p_location p, c_gender = p_gender p, c_interests = p_interests p\<rparr>"

subsection \<open>Requests, responses and the environment\<close>

record request =
  req_method :: string
  authorization :: "string option"

text \<open>
  The JSON bodies that the handler serialises, one constructor for each shape, and the
  plain text of the preflight answer.
\<close>

record match_json =
  j_id :: string
  j_matchedUser :: candidate
  j_matchScore :: "rat option"
  j_createdAt :: string

datatype body =
    TextBody string
  | ErrorBody string "string option"
  | SearchingBody string string string
  | MatchedBody string string match_json

record response =
  status :: nat
  headers :: "(string \<times> string) list"
  body :: body

text \<open>A value that reaches the \<^verbatim>\<open>catch\<close>: an \<^verbatim>\<open>Error\<close> with its message, or anything else.\<close>

datatype thrown = ErrorObj string | NonError

text \<open>
  The promise of \<^verbatim>\<open>auth.getUser\<close> either resolves to the pair of \<^verbatim>\<open>data.user\<close> (the
  identity, or null) and \<^verbatim>\<open>error\<close>, or rejects.
\<close>

datatype getUser_result = Resolved "string option" "string option" | PromiseRejected thrown

datatype storage_error =
    External string
  | TriggerFailure
  | CheckViolation
  | ForeignKeyViolation
  | PrimaryKeyViolation
  | UniqueViolation

text \<open>
  What the collaborators decide in one invocation:
  \<^item> \<open>getUser\<close>: the outcome of the identity service for a token;
  \<^item> \<open>update_error\<close>, \<open>search_error\<close>, \<open>insert_error\<close>, \<open>clear_error\<close>: the error that the
    store reports for the statement of step 1, 2, 5 and 6 for a reason of its own (the
    handler reads these from the \<^verbatim>\<open>error\<close> field of the result; the client library does not
    throw), or none;
  \<^item> \<open>pick\<close>: which of the rows that qualify the query of step 2 returns;
  \<^item> \<open>uuid_generate_v4\<close>: the key that the default of \<^verbatim>\<open>matches.id\<close> produces;
  \<^item> \<open>date_now n\<close>: the value of the handler's \<open>n\<close>-th \<^verbatim>\<open>new Date().toISOString()\<close>,
    counted from 0, and \<open>pg_now n\<close>: the value of \<^verbatim>\<open>NOW()\<close> in the store's \<open>n\<close>-th update;
  \<^item> \<open>timestamptz_out\<close>: the text in which the store gives back a timestamp that it was
    sent (the handler sends \<^verbatim>\<open>...431Z\<close>, a \<^verbatim>\<open>timestamptz\<close> column answers \<^verbatim>\<open>...431+00:00\<close>).
\<close>

record env =
  getUser :: "string \<Rightarrow> getUser_result"
  update_error :: "string option"
  search_error :: "string option"
  pick :: nat
  insert_error :: "string option"
  uuid_generate_v4 :: string
  clear_error :: "string option"
  date_now :: "nat \<Rightarrow> string"
  pg_now :: "nat \<Rightarrow> string"
  timestamptz_out :: "string \<Rightarrow> string"

subsection \<open>The storage operations the handler issues\<close>

text \<open>
  The trigger \<^verbatim>\<open>handle_profiles_updated_at\<close> runs before every update of a profile row and
  overwrites the timestamp that the statement supplied.
\<close>

definition handle_updated_at :: "string \<Rightarrow> profile \<Rightarrow> profile" where
  "handle_updated_at now new = new\<lparr>p_updated_at := now\<rparr>"

text \<open>
  Step 1: \<^verbatim>\<open>update({is_searching: true, updated_at}).eq('id', userId)\<close>. A statement that
  reports an error changes nothing; one that finds no row changes nothing and reports none.
\<close>

definition update_is_searching :: "env \<Rightarrow> db \<Rightarrow> string \<Rightarrow> storage_error + db" where
  "update_is_searching env d userId =
     (case update_error env of
        Some e \<Rightarrow> Inl (External e)
      | None \<Rightarrow>
          Inr (d\<lparr>profiles :=
                 map (\<lambda>p. if p_id p = userId
                           then handle_updated_at (pg_now env 0)
                                  (p\<lparr>is_searching := True, p_updated_at := date_now env 0\<rparr>)
                           else p)
                     (profiles d)\<rparr>))"

text \<open>
  Step 2: the rows with \<^verbatim>\<open>is_searching\<close>, \<^verbatim>\<open>is_active\<close> and an id other than the caller's,
  cut to one row by \<^verbatim>\<open>limit(1)\<close>. No order is requested, so the row that survives is the
  store's choice: the environment's \<open>pick\<close> selects it.
\<close>

definition limit_1 :: "nat \<Rightarrow> 'a list \<Rightarrow> 'a list" where
  "limit_1 n xs = (if xs = [] then [] else [xs ! (n mod length xs)])"

definition select_candidates :: "env \<Rightarrow> db \<Rightarrow> string \<Rightarrow> storage_error + candidate list" where
  "select_candidates env d userId =
     (case search_error env of
        Some e \<Rightarrow> Inl (External e)
      | None \<Rightarrow>
          Inr (limit_1 (pick env)
                 (map select_columns
                    (filter (\<lambda>p. is_searching p \<and> is_active p \<and> p_id p \<noteq> userId)
                       (profiles d)))))"

text \<open>
  The payload of the handler's insert: every column but the key, which the table's
  default \<^verbatim>\<open>uuid_generate_v4()\<close> supplies. The row that the store holds and gives back
  has the two timestamps in the store's own rendering.
\<close>

record match_insert =
  i_profile1_id :: string
  i_profile2_id :: string
  i_status :: match_status
  i_match_score :: "rat option"
  i_created_at :: string
  i_updated_at :: string

definition new_row :: "env \<Rightarrow> match_insert \<Rightarrow> match_row" where
  "new_row env v =
     \<lparr>m_id = uuid_generate_v4 env,
      profile1_id = i_profile1_id v,
      profile2_id = i_profile2_id v,
      m_status = i_status v,
      match_score = i_match_score v,
      m_created_at = timestamptz_out env (i_created_at v),
      m_updated_at = timestamptz_out env (i_updated_at v)\<rparr>"

text \<open>
  Step 5: the insert into \<^verbatim>\<open>matches\<close>. The trigger \<^verbatim>\<open>ensure_mutual_match\<close> runs first; its
  body is entered when \<^verbatim>\<open>profile1_id\<close> is the greater identity and there assigns to both
  columns from the row \<^verbatim>\<open>OLD\<close>, which an insert does not have, so that the statement
  cannot store such a row (both columns are NOT NULL). The order of UUIDs in the store
  and the order of their lower-case texts in the handler are the same order.
  Then the constraints of the table are checked: the CHECK that the two identities
  differ, the two foreign keys into \<^verbatim>\<open>profiles\<close>, the primary key and
  \<^verbatim>\<open>UNIQUE(profile1_id, profile2_id)\<close>. The stored row is returned
  (\<^verbatim>\<open>.select().single()\<close>).
\<close>

definition create_mutual_match_fires :: "match_row \<Rightarrow> bool" where
  "create_mutual_match_fires new = (profile1_id new > profile2_id new)"

definition insert_match :: "env \<Rightarrow> db \<Rightarrow> match_insert \<Rightarrow> storage_error + (match_row \<times> db)" where
  "insert_match env d v =
     (case insert_error env of
        Some e \<Rightarrow> Inl (External e)
      | None \<Rightarrow>
          (let new = new_row env v
           in if create_mutual_match_fires new then Inl TriggerFailure
              else if profile1_id new = profile2_id new then Inl CheckViolation
              else if profile1_id new \<notin> set (map p_id (profiles d))
                then Inl ForeignKeyViolation
              else if profile2_id new \<notin> set (map p_id (profiles d))
                then Inl ForeignKeyViolation
              else if m_id new \<in> set (map m_id (matches d)) then Inl PrimaryKeyViolation
              else if (profile1_id new, profile2_id new)
                        \<in> set (map (\<lambda>r. (profile1_id r, profile2_id r)) (matches d))
                then Inl UniqueViolation
              else Inr (new, d\<lparr>matches := matches d @ [new]\<rparr>)))"

text \<open>Step 6: \<^verbatim>\<open>update({is_searching: false, updated_at}).in('id', [userId, matchedUser.id])\<close>.\<close>

definition clear_is_searching :: "env \<Rightarrow> db \<Rightarrow> string list \<Rightarrow> storage_error + db" where
  "clear_is_searching env d ids =
     (case clear_error env of
        Some e \<Rightarrow> Inl (External e)
      | None \<Rightarrow>
          Inr (d\<lparr>profiles :=
                 map (\<lambda>p. if p_id p \<in> set ids
                           then handle_updated_at (pg_now env 1)
                                  (p\<lparr>is_searching := False, p_updated_at := date_now env 3\<rparr>)
                           else p)
                     (profiles d)\<rparr>))"

subsection \<open>The handler\<close>

definition corsHeaders :: "(string \<times> string) list" where
  "corsHeaders =
     [(''Access-Control-Allow-Origin'', ''*''),
      (''Access-Control-Allow-Headers'', ''authorization, x-client-info, apikey, content-type'')]"

definition json_response :: "nat \<Rightarrow> body \<Rightarrow> response" where
  "json_response code b =
     \<lparr>status = code, headers = corsHeaders @ [(''Content-Type'', ''application/json'')], body = b\<rparr>"

text \<open>\<^verbatim>\<open>String.prototype.replace\<close> with a string pattern: the first occurrence only.\<close>

fun replace :: "string \<Rightarrow> string \<Rightarrow> string \<Rightarrow> string" where
  "replace pat rep [] = (if pat = [] then rep else [])"
| "replace pat rep (c # cs) =
     (if prefix pat (c # cs) then rep @ drop (length pat) (c # cs)
      else c # replace pat rep cs)"

text \<open>
  The header is read with a non-null assertion; when it is absent, the call of
  \<^verbatim>\<open>replace\<close> on null throws a TypeError, which the \<^verbatim>\<open>catch\<close> receives.
\<close>

definition null_replace_message :: string where
  "null_replace_message = ''Cannot read properties of null (reading 'replace')''"

definition catch_response :: "thrown \<Rightarrow> response" where
  "catch_response error =
     json_response 500
       (ErrorBody ''Internal server error''
          (Some (case error of ErrorObj message \<Rightarrow> message | NonError \<Rightarrow> ''Unknown error'')))"

text \<open>
  Lines 120 to 138: the identity of the caller. The outcome is the caller, the 401
  answer (\<^verbatim>\<open>authError || !user\<close>), or a value thrown into the \<^verbatim>\<open>catch\<close>.
\<close>

datatype auth = Caller string | Unauthorized | Faulted thrown

definition authenticate :: "env \<Rightarrow> request \<Rightarrow> auth" where
  "authenticate env req =
     (case authorization req of
        None \<Rightarrow> Faulted (ErrorObj null_replace_message)
      | Some authHeader \<Rightarrow>
          (case getUser env (replace ''Bearer '' '''' authHeader) of
             PromiseRejected error \<Rightarrow> Faulted error
           | Resolved user authError \<Rightarrow>
               (case (authError, user) of
                  (Some e, _) \<Rightarrow> Unauthorized
                | (None, None) \<Rightarrow> Unauthorized
                | (None, Some userId) \<Rightarrow> Caller userId)))"

text \<open>
  Lines 205 to 219: the ordered pair (\<^verbatim>\<open>smaller ID first\<close>) and the row that is
  handed to the insert.
\<close>

definition match_payload :: "env \<Rightarrow> string \<Rightarrow> candidate \<Rightarrow> match_insert" where
  "match_payload env userId matchedUser =
     (let profile1Id = (if userId < c_id matchedUser then userId else c_id matchedUser);
          profile2Id = (if userId < c_id matchedUser then c_id matchedUser else userId)
      in \<lparr>i_profile1_id = profile1Id,
          i_profile2_id = profile2Id,
          i_status = Matched,
          i_match_score = Some (85 / 100),
          i_created_at = date_now env 1,
          i_updated_at = date_now env 2\<rparr>)"

text \<open>Lines 142 to 274: steps 1 to 7 for the caller \<open>userId\<close>.\<close>

definition request_match :: "env \<Rightarrow> db \<Rightarrow> string \<Rightarrow> response \<times> db" where
  "request_match env d userId =
     (case update_is_searching env d userId of
        Inl updateError \<Rightarrow>
          (json_response 500 (ErrorBody ''Failed to update search status'' None), d)
      | Inr d1 \<Rightarrow>
          (case select_candidates env d1 userId of
             Inl searchError \<Rightarrow>
               (json_response 500 (ErrorBody ''Failed to search for matches'' None), d1)
           | Inr [] \<Rightarrow>
               (json_response 200
                  (SearchingBody ''searching'' ''Looking for your perfect match...'' userId),
                d1)
           | Inr (matchedUser # _) \<Rightarrow>
               (case insert_match env d1 (match_payload env userId matchedUser) of
                 Inl matchError \<Rightarrow>
                   (json_response 500 (ErrorBody ''Failed to create match'' None), d1)
               | Inr (newMatch, d2) \<Rightarrow>
                   (json_response 200
                      (MatchedBody ''matched'' ''Match found!''
                         \<lparr>j_id = m_id newMatch,
                          j_matchedUser = matchedUser,
                          j_matchScore = match_score newMatch,
                          j_createdAt = m_created_at newMatch\<rparr>),
                    case clear_is_searching env d2 [userId, c_id matchedUser] of
                      Inl updateUsersError \<Rightarrow> d2
                    | Inr d3 \<Rightarrow> d3))))"

text \<open>The whole handler: the preflight answer, then the \<^verbatim>\<open>try\<close> with its \<^verbatim>\<open>catch\<close>.\<close>

definition find_match :: "env \<Rightarrow> db \<Rightarrow> request \<Rightarrow> response \<times> db" where
  "find_match env d req =
     (if req_method req = ''OPTIONS''
      then (\<lparr>status = 200, headers = corsHeaders, body = TextBody ''ok''\<rparr>, d)
      else
        case authenticate env req of
          Faulted error \<Rightarrow> (catch_response error, d)
        | Unauthorized \<Rightarrow> (json_response 401 (ErrorBody ''Unauthorized'' None), d)
        | Caller userId \<Rightarrow> request_match env d userId)"


subsection \<open>Two users and the services around them\<close>

text \<open>
  Concrete rows and environments on which the theorems below are run: Alice (\<open>u1\<close>) and
  Bob (\<open>u2\<close>), an identity service that knows one token for each of them, and a store
  that reports no error.
\<close>

definition alice :: profile where
  "alice =
     \<lparr>p_id = ''u1'', p_name = ''Alice'', p_bio = Some ''hi'', p_age = Some 30,
      p_location = None, p_gender = Some ''female'', p_interests = ''[]'',
      is_active = True, is_searching = False, p_updated_at = ''t0''\<rparr>"

definition bob :: profile where
  "bob =
     \<lparr>p_id = ''u2'', p_name = ''Bob'', p_bio = None, p_age = Some 32,
      p_location = Some ''Pune'', p_gender = Some ''male'', p_interests = ''[]'',
      is_active = True, is_searching = True, p_updated_at = ''t0''\<rparr>"

definition env0 :: env where
  "env0 =
     \<lparr>getUser =
        (\<lambda>token. if token = ''tok1'' then Resolved (Some ''u1'') None
                  else if token = ''tok2'' then Resolved (Some ''u2'') None
                  else if token = ''tok3''
                    then PromiseRejected (ErrorObj ''connect ECONNREFUSED 10.0.0.7:9999'')
                  else Resolved None (Some ''invalid JWT'')),
      update_error = None, search_error = None, pick = 0, insert_error = None,
      uuid_generate_v4 = ''m1'', clear_error = None,
      date_now =
        (\<lambda>n. if n = 1 then ''2024-05-01T10:00:00.431Z'' else ''2024-05-01T10:00:00.432Z''),
      pg_now = (\<lambda>n. ''t2''),
      timestamptz_out = (\<lambda>t. butlast t @ ''+00:00'')\<rparr>"

definition post :: "string \<Rightarrow> request" where
  "post token = \<lparr>req_method = ''POST'', authorization = Some (''Bearer '' @ token)\<rparr>"

definition db0 :: db where
  "db0 = \<lparr>profiles = [alice, bob], matches = []\<rparr>"

definition db1 :: db where
  "db1 = \<lparr>profiles = [alice\<lparr>is_searching := True\<rparr>, bob\<lparr>is_searching := False\<rparr>],
          matches = []\<rparr>"

definition db2 :: db where
  "db2 = \<lparr>profiles = [alice\<lparr>is_active := False\<rparr>, bob], matches = []\<rparr>"

definition db3 :: db where
  "db3 = \<lparr>profiles = [alice, bob\<lparr>is_searching := False\<rparr>], matches = []\<rparr>"

definition stored_match :: "match_status \<Rightarrow> match_row" where
  "stored_match st =
     \<lparr>m_id = ''m0'', profile1_id = ''u1'', profile2_id = ''u2'', m_status = st,
      match_score = None, m_created_at = ''t0'', m_updated_at = ''t0''\<rparr>"


section \<open>Properties of the handler\<close>

subsection \<open>The single steps\<close>

lemma body_json_response [simp]: "body (json_response c b) = b"
  by (simp add: json_response_def)

lemma status_json_response [simp]: "status (json_response c b) = c"
  by (simp add: json_response_def)

lemma update_is_searching_eq:
  "update_is_searching env d u = Inr d1 \<longleftrightarrow>
     update_error env = None \<and>
     d1 = d\<lparr>profiles :=
                 map (\<lambda>p. if p_id p = u
                           then handle_updated_at (pg_now env 0)
                                  (p\<lparr>is_searching := True, p_updated_at := date_now env 0\<rparr>)
                           else p)
                     (profiles d)\<rparr>"
  by (cases "update_error env") (auto simp: update_is_searching_def)

lemma update_is_searching_matches:
  "update_is_searching env d u = Inr d1 \<Longrightarrow> matches d1 = matches d"
  by (simp add: update_is_searching_eq)

lemma update_is_searching_ids:
  "update_is_searching env d u = Inr d1 \<Longrightarrow> map p_id (profiles d1) = map p_id (profiles d)"
  by (simp add: update_is_searching_eq handle_updated_at_def comp_def)

lemma update_is_searching_active:
  "update_is_searching env d u = Inr d1 \<Longrightarrow>
   map is_active (profiles d1) = map is_active (profiles d)"
  by (simp add: update_is_searching_eq handle_updated_at_def comp_def)

lemma update_is_searching_flag:
  assumes "update_is_searching env d u = Inr d1" and "p \<in> set (profiles d1)" and "p_id p = u"
  shows "is_searching p"
proof -
  let ?f = "\<lambda>p. if p_id p = u
                 then handle_updated_at (pg_now env 0)
                        (p\<lparr>is_searching := True, p_updated_at := date_now env 0\<rparr>)
                 else p"
  from assms(1) have "profiles d1 = map ?f (profiles d)"
    by (simp add: update_is_searching_eq)
  with assms(2) have "p \<in> ?f ` set (profiles d)"
    by (simp only: set_map)
  then obtain q where q: "p = ?f q"
    by (rule imageE)
  show ?thesis
  proof (cases "p_id q = u")
    case True
    with q show ?thesis by (simp add: handle_updated_at_def)
  next
    case False
    with q assms(3) show ?thesis by simp
  qed
qed

lemma limit_1_Cons: "limit_1 n xs = y # ys \<Longrightarrow> ys = [] \<and> y \<in> set xs"
  by (cases "xs = []") (auto simp add: limit_1_def)

lemma select_candidates_eq:
  "select_candidates env d u = Inr cs \<longleftrightarrow>
     search_error env = None \<and>
     cs = limit_1 (pick env)
            (map select_columns
               (filter (\<lambda>p. is_searching p \<and> is_active p \<and> p_id p \<noteq> u) (profiles d)))"
  by (cases "search_error env") (auto simp: select_candidates_def)

lemma c_id_select_columns [simp]: "c_id (select_columns p) = p_id p"
  by (simp add: select_columns_def)

lemma select_candidates_Cons:
  assumes "select_candidates env d u = Inr (c # cs)"
  shows "cs = [] \<and> c_id c \<noteq> u \<and>
         (\<exists>p\<in>set (profiles d). select_columns p = c \<and> is_searching p \<and> is_active p)"
proof -
  let ?xs = "map select_columns
               (filter (\<lambda>p. is_searching p \<and> is_active p \<and> p_id p \<noteq> u) (profiles d))"
  from assms have "limit_1 (pick env) ?xs = c # cs"
    by (simp add: select_candidates_eq)
  then have "cs = [] \<and> c \<in> set ?xs"
    by (rule limit_1_Cons)
  then have cs: "cs = []" and "c \<in> set ?xs"
    by simp_all
  then obtain p where "p \<in> set (profiles d)" "is_searching p" "is_active p" "p_id p \<noteq> u"
    "c = select_columns p"
    by auto
  with cs show ?thesis by auto
qed

lemma select_candidates_Nil:
  "select_candidates env d u = Inr [] \<longleftrightarrow>
     search_error env = None \<and>
     (\<forall>p\<in>set (profiles d). is_searching p \<and> is_active p \<longrightarrow> p_id p = u)"
  by (auto simp: select_candidates_eq limit_1_def filter_empty_conv)

lemma insert_match_Inr:
  assumes "insert_match env d v = Inr (new, d2)"
  shows "new = new_row env v \<and> d2 = d\<lparr>matches := matches d @ [new]\<rparr> \<and>
         profile1_id new \<noteq> profile2_id new \<and>
         profile1_id new \<in> set (map p_id (profiles d)) \<and>
         profile2_id new \<in> set (map p_id (profiles d))"
proof (cases "insert_error env")
  case None
  with assms show ?thesis
    unfolding insert_match_def Let_def
    by (auto split: if_splits)
next
  case (Some e)
  with assms show ?thesis by (simp add: insert_match_def)
qed

lemma new_row_payload:
  "new_row env (match_payload env u c) =
     \<lparr>m_id = uuid_generate_v4 env,
      profile1_id = min u (c_id c),
      profile2_id = max u (c_id c),
      m_status = Matched,
      match_score = Some (85 / 100),
      m_created_at = timestamptz_out env (date_now env 1),
      m_updated_at = timestamptz_out env (date_now env 2)\<rparr>"
  by (auto simp add: new_row_def match_payload_def Let_def min_def max_def)

text \<open>The pair that the handler hands over never enters the body of the trigger.\<close>

lemma payload_passes_trigger:
  "\<not> create_mutual_match_fires (new_row env (match_payload env u c))"
  by (simp add: create_mutual_match_fires_def new_row_payload)

lemma clear_is_searching_eq:
  "clear_is_searching env d ids = Inr d3 \<longleftrightarrow>
     clear_error env = None \<and>
     d3 = d\<lparr>profiles :=
                 map (\<lambda>p. if p_id p \<in> set ids
                           then handle_updated_at (pg_now env 1)
                                  (p\<lparr>is_searching := False, p_updated_at := date_now env 3\<rparr>)
                           else p)
                     (profiles d)\<rparr>"
  by (cases "clear_error env") (auto simp: clear_is_searching_def)

lemma clear_is_searching_matches:
  "matches (case clear_is_searching env d2 ids of Inl e \<Rightarrow> d2 | Inr d3 \<Rightarrow> d3) = matches d2"
  by (cases "clear_error env") (simp_all add: clear_is_searching_def)

subsection \<open>The paths through the handler\<close>

lemma find_match_Caller:
  "req_method req \<noteq> ''OPTIONS'' \<Longrightarrow> authenticate env req = Caller u \<Longrightarrow>
   find_match env d req = request_match env d u"
  by (simp add: find_match_def)

lemma find_match_Matched:
  assumes "find_match env d req = (resp, d')" and "body resp = MatchedBody st msg mj"
  shows "\<exists>u. authenticate env req = Caller u \<and> request_match env d u = (resp, d')"
proof (cases "req_method req = ''OPTIONS''")
  case True
  with assms show ?thesis by (auto simp: find_match_def)
next
  case False
  show ?thesis
  proof (cases "authenticate env req")
    case (Caller u)
    with False assms(1) show ?thesis by (simp add: find_match_def)
  next
    case Unauthorized
    with False assms show ?thesis by (auto simp: find_match_def)
  next
    case (Faulted t)
    with False assms show ?thesis by (auto simp: find_match_def catch_response_def)
  qed
qed

lemma request_match_Matched:
  assumes "request_match env d u = (resp, d')" and "body resp = MatchedBody st msg mj"
  shows "\<exists>d1 c new d2.
           update_is_searching env d u = Inr d1 \<and>
           select_candidates env d1 u = Inr [c] \<and>
           insert_match env d1 (match_payload env u c) = Inr (new, d2) \<and>
           mj = \<lparr>j_id = m_id new, j_matchedUser = c, j_matchScore = match_score new,
                 j_createdAt = m_created_at new\<rparr> \<and>
           d' = (case clear_is_searching env d2 [u, c_id c] of Inl e \<Rightarrow> d2 | Inr d3 \<Rightarrow> d3)"
proof (cases "update_is_searching env d u")
  case (Inl e)
  with assms show ?thesis by (auto simp: request_match_def)
next
  case (Inr d1)
  note step1 = this
  show ?thesis
  proof (cases "select_candidates env d1 u")
    case (Inl e)
    with step1 assms show ?thesis by (auto simp: request_match_def)
  next
    case (Inr cs)
    note step2 = this
    show ?thesis
    proof (cases cs)
      case Nil
      with step1 step2 assms show ?thesis by (auto simp: request_match_def)
    next
      case (Cons c rest)
      with step2 have rest: "rest = []"
        using select_candidates_Cons by blast
      show ?thesis
      proof (cases "insert_match env d1 (match_payload env u c)")
        case (Inl e)
        with step1 step2 Cons assms show ?thesis by (auto simp: request_match_def)
      next
        case (Inr nd)
        obtain new d2 where nd: "nd = (new, d2)" by (cases nd)
        from step1 step2 Cons Inr nd assms(1)
        have resp: "resp = json_response 200
                        (MatchedBody ''matched'' ''Match found!''
                           \<lparr>j_id = m_id new, j_matchedUser = c,
                            j_matchScore = match_score new,
                            j_createdAt = m_created_at new\<rparr>)"
          and d': "d' = (case clear_is_searching env d2 [u, c_id c] of
                           Inl e \<Rightarrow> d2 | Inr d3 \<Rightarrow> d3)"
          by (simp_all add: request_match_def)
        from resp assms(2) have "mj = \<lparr>j_id = m_id new, j_matchedUser = c,
              j_matchScore = match_score new, j_createdAt = m_created_at new\<rparr>"
          by simp
        with step1 step2 Cons rest Inr nd d' show ?thesis by blast
      qed
    qed
  qed
qed

lemma request_match_matches:
  assumes "request_match env d u = (resp, d')"
  shows "matches d' = matches d \<or> (\<exists>mj. body resp = MatchedBody ''matched'' ''Match found!'' mj)"
proof (cases "update_is_searching env d u")
  case (Inl e)
  with assms show ?thesis by (auto simp: request_match_def)
next
  case (Inr d1)
  note step1 = this
  show ?thesis
  proof (cases "select_candidates env d1 u")
    case (Inl e)
    with step1 assms show ?thesis
      by (auto simp: request_match_def update_is_searching_matches)
  next
    case (Inr cs)
    note step2 = this
    show ?thesis
    proof (cases cs)
      case Nil
      with step1 step2 assms show ?thesis
        by (auto simp: request_match_def update_is_searching_matches)
    next
      case (Cons c rest)
      show ?thesis
      proof (cases "insert_match env d1 (match_payload env u c)")
        case (Inl e)
        with step1 step2 Cons assms show ?thesis
          by (auto simp: request_match_def update_is_searching_matches)
      next
        case (Inr nd)
        obtain new d2 where "nd = (new, d2)" by (cases nd)
        with step1 step2 Cons Inr assms show ?thesis
          by (auto simp: request_match_def)
      qed
    qed
  qed
qed

lemma find_match_matches:
  assumes "find_match env d req = (resp, d')"
  shows "matches d' = matches d \<or> (\<exists>mj. body resp = MatchedBody ''matched'' ''Match found!'' mj)"
proof (cases "req_method req = ''OPTIONS''")
  case True
  with assms show ?thesis by (auto simp: find_match_def)
next
  case False
  show ?thesis
  proof (cases "authenticate env req")
    case (Caller u)
    with False assms have "request_match env d u = (resp, d')"
      by (simp add: find_match_def)
    then show ?thesis by (rule request_match_matches)
  next
    case Unauthorized
    with False assms show ?thesis by (auto simp: find_match_def)
  next
    case (Faulted t)
    with False assms show ?thesis by (auto simp: find_match_def)
  qed
qed

subsection \<open>Runs on the two users\<close>

lemma find_match_alice:
  "find_match env0 db0 (post ''tok1'') =
     (json_response 200
        (MatchedBody ''matched'' ''Match found!''
           \<lparr>j_id = ''m1'', j_matchedUser = select_columns bob,
            j_matchScore = Some (85 / 100),
            j_createdAt = ''2024-05-01T10:00:00.431+00:00''\<rparr>),
      \<lparr>profiles = [alice\<lparr>p_updated_at := ''t2''\<rparr>,
                   bob\<lparr>is_searching := False, p_updated_at := ''t2''\<rparr>],
       matches = [\<lparr>m_id = ''m1'', profile1_id = ''u1'', profile2_id = ''u2'',
                   m_status = Matched, match_score = Some (85 / 100),
                   m_created_at = ''2024-05-01T10:00:00.431+00:00'',
                   m_updated_at = ''2024-05-01T10:00:00.432+00:00''\<rparr>]\<rparr>)"
  by (simp add: find_match_def authenticate_def request_match_def env0_def db0_def post_def
      alice_def bob_def update_is_searching_def select_candidates_def limit_1_def
      select_columns_def insert_match_def new_row_def create_mutual_match_fires_def
      match_payload_def clear_is_searching_def handle_updated_at_def Let_def)

lemma find_match_bob:
  "find_match env0 db1 (post ''tok2'') =
     (json_response 200
        (MatchedBody ''matched'' ''Match found!''
           \<lparr>j_id = ''m1'', j_matchedUser = select_columns alice,
            j_matchScore = Some (85 / 100),
            j_createdAt = ''2024-05-01T10:00:00.431+00:00''\<rparr>),
      \<lparr>profiles = [alice\<lparr>p_updated_at := ''t2''\<rparr>,
                   bob\<lparr>is_searching := False, p_updated_at := ''t2''\<rparr>],
       matches = [\<lparr>m_id = ''m1'', profile1_id = ''u1'', profile2_id = ''u2'',
                   m_status = Matched, match_score = Some (85 / 100),
                   m_created_at = ''2024-05-01T10:00:00.431+00:00'',
                   m_updated_at = ''2024-05-01T10:00:00.432+00:00''\<rparr>]\<rparr>)"
  by (simp add: find_match_def authenticate_def request_match_def env0_def db1_def post_def
      alice_def bob_def update_is_searching_def select_candidates_def limit_1_def
      select_columns_def insert_match_def new_row_def create_mutual_match_fires_def
      match_payload_def clear_is_searching_def handle_updated_at_def Let_def)

subsection \<open>The stored pair\<close>

text \<open>
  C1 (canonical ordering). Whenever the handler answers \<open>matched\<close>, the caller \<open>u\<close> was
  authenticated, exactly one row was appended to \<^verbatim>\<open>matches\<close>, it is the row whose key the
  answer carries, and its \<^verbatim>\<open>profile1_id\<close> is the smaller and its \<^verbatim>\<open>profile2_id\<close> the greater
  of the caller's identity and the matched user's. The statement is symmetric in the two
  identities, so it does not matter which of the two was the caller.
\<close>

theorem canonical_ordering:
  assumes "find_match env d req = (resp, d')" and "body resp = MatchedBody st msg mj"
  shows "\<exists>u row. authenticate env req = Caller u \<and>
           matches d' = matches d @ [row] \<and>
           m_id row = j_id mj \<and>
           profile1_id row = min u (c_id (j_matchedUser mj)) \<and>
           profile2_id row = max u (c_id (j_matchedUser mj))"
proof -
  from assms obtain u where u: "authenticate env req = Caller u"
    and rm: "request_match env d u = (resp, d')"
    using find_match_Matched by blast
  from request_match_Matched [OF rm assms(2)] obtain d1 c new d2 where
    step1: "update_is_searching env d u = Inr d1" and
    step5: "insert_match env d1 (match_payload env u c) = Inr (new, d2)" and
    mj: "mj = \<lparr>j_id = m_id new, j_matchedUser = c, j_matchScore = match_score new,
               j_createdAt = m_created_at new\<rparr>" and
    d': "d' = (case clear_is_searching env d2 [u, c_id c] of Inl e \<Rightarrow> d2 | Inr d3 \<Rightarrow> d3)"
    by blast
  from insert_match_Inr [OF step5] have new: "new = new_row env (match_payload env u c)"
    and d2: "d2 = d1\<lparr>matches := matches d1 @ [new]\<rparr>"
    by simp_all
  have "matches d' = matches d2"
    by (simp only: d' clear_is_searching_matches)
  also have "\<dots> = matches d @ [new]"
    by (simp add: d2 update_is_searching_matches [OF step1])
  finally have m: "matches d' = matches d @ [new]" .
  have "profile1_id new = min u (c_id c)" and "profile2_id new = max u (c_id c)"
    by (simp_all add: new new_row_payload)
  with u m mj show ?thesis by auto
qed

theorem canonical_ordering_witness:
  "(\<exists>u row. authenticate env0 (post ''tok1'') = Caller u \<and>
      matches (snd (find_match env0 db0 (post ''tok1''))) = matches db0 @ [row] \<and>
      m_id row = ''m1'' \<and> profile1_id row = min u ''u2'' \<and> profile2_id row = max u ''u2'') \<and>
   (\<exists>u row. authenticate env0 (post ''tok2'') = Caller u \<and>
      matches (snd (find_match env0 db1 (post ''tok2''))) = matches db1 @ [row] \<and>
      m_id row = ''m1'' \<and> profile1_id row = min u ''u1'' \<and> profile2_id row = max u ''u1'')"
  using canonical_ordering [OF find_match_alice body_json_response]
    canonical_ordering [OF find_match_bob body_json_response]
  by (simp add: find_match_alice find_match_bob select_columns_def alice_def bob_def)

text \<open>
  C2 (no self-match). A row that is in \<^verbatim>\<open>matches\<close> after the call and was not there before
  has two different identities: it pairs the authenticated caller \<open>u\<close> with the one row
  \<open>c\<close> that the candidate query of step 2 returned, and that row's id is not \<open>u\<close>.
\<close>

theorem no_self_match:
  assumes "find_match env d req = (resp, d')"
    and "r \<in> set (matches d')" and "r \<notin> set (matches d)"
  shows "profile1_id r \<noteq> profile2_id r \<and>
         (\<exists>u d1 c. authenticate env req = Caller u \<and>
            update_is_searching env d u = Inr d1 \<and>
            select_candidates env d1 u = Inr [c] \<and>
            c_id c \<noteq> u \<and>
            profile1_id r = min u (c_id c) \<and> profile2_id r = max u (c_id c))"
proof -
  from assms(2,3) have "matches d' \<noteq> matches d" by auto
  with find_match_matches [OF assms(1)] obtain mj where
    b: "body resp = MatchedBody ''matched'' ''Match found!'' mj"
    by blast
  from find_match_Matched [OF assms(1) b] obtain u where
    u: "authenticate env req = Caller u" and rm: "request_match env d u = (resp, d')"
    by blast
  from request_match_Matched [OF rm b] obtain d1 c new d2 where
    step1: "update_is_searching env d u = Inr d1" and
    step2: "select_candidates env d1 u = Inr [c]" and
    step5: "insert_match env d1 (match_payload env u c) = Inr (new, d2)" and
    d': "d' = (case clear_is_searching env d2 [u, c_id c] of Inl e \<Rightarrow> d2 | Inr d3 \<Rightarrow> d3)"
    by blast
  from select_candidates_Cons [OF step2] have neq: "c_id c \<noteq> u" by simp
  from insert_match_Inr [OF step5] have new: "new = new_row env (match_payload env u c)"
    and d2: "d2 = d1\<lparr>matches := matches d1 @ [new]\<rparr>"
    by simp_all
  have "matches d' = matches d2"
    by (simp only: d' clear_is_searching_matches)
  also have "\<dots> = matches d @ [new]"
    by (simp add: d2 update_is_searching_matches [OF step1])
  finally have "matches d' = matches d @ [new]" .
  with assms(2,3) have r: "r = new" by auto
  have p: "profile1_id r = min u (c_id c)" "profile2_id r = max u (c_id c)"
    by (simp_all add: r new new_row_payload)
  with neq have "profile1_id r \<noteq> profile2_id r"
    by (auto simp: min_def max_def split: if_splits)
  with u step1 step2 neq p show ?thesis by blast
qed

theorem no_self_match_witness:
  "\<lparr>m_id = ''m1'', profile1_id = ''u1'', profile2_id = ''u2'', m_status = Matched,
     match_score = Some (85 / 100),
     m_created_at = ''2024-05-01T10:00:00.431+00:00'',
     m_updated_at = ''2024-05-01T10:00:00.432+00:00''\<rparr>
     \<in> set (matches (snd (find_match env0 db0 (post ''tok1'')))) \<and>
   (\<exists>u d1 c. authenticate env0 (post ''tok1'') = Caller u \<and>
      update_is_searching env0 db0 u = Inr d1 \<and>
      select_candidates env0 d1 u = Inr [c] \<and>
      c_id c \<noteq> u \<and> ''u1'' = min u (c_id c) \<and> ''u2'' = max u (c_id c))"
proof -
  have m0: "matches db0 = []"
    by (simp add: db0_def)
  show ?thesis
    using no_self_match [OF find_match_alice,
        of "\<lparr>m_id = ''m1'', profile1_id = ''u1'', profile2_id = ''u2'', m_status = Matched,
             match_score = Some (85 / 100),
             m_created_at = ''2024-05-01T10:00:00.431+00:00'',
             m_updated_at = ''2024-05-01T10:00:00.432+00:00''\<rparr>"]
    by (simp add: find_match_alice m0)
qed

subsection \<open>Credentials\<close>

lemma find_match_Unauthorized:
  "req_method req \<noteq> ''OPTIONS'' \<Longrightarrow> authenticate env req = Unauthorized \<Longrightarrow>
   find_match env d req = (json_response 401 (ErrorBody ''Unauthorized'' None), d)"
  by (simp add: find_match_def)

lemma authenticate_invalid:
  "getUser env (replace ''Bearer '' '''' h) = Resolved user (Some e) \<Longrightarrow>
   authenticate env \<lparr>req_method = m, authorization = Some h\<rparr> = Unauthorized"
  by (simp add: authenticate_def)

text \<open>
  C3 (no credential). A request without an \<^verbatim>\<open>Authorization\<close> header does not get the
  401 answer: the call of \<^verbatim>\<open>replace\<close> on the absent header throws, the \<^verbatim>\<open>catch\<close> answers
  500 with \<^verbatim>\<open>Internal server error\<close> and the message of the TypeError. The tables are
  left as they were.
\<close>

theorem missing_credential_internal_error:
  "find_match env d \<lparr>req_method = ''POST'', authorization = None\<rparr> =
     (\<lparr>status = 500,
       headers = corsHeaders @ [(''Content-Type'', ''application/json'')],
       body = ErrorBody ''Internal server error'' (Some null_replace_message)\<rparr>, d)"
  by (simp add: find_match_def authenticate_def catch_response_def json_response_def)

subsection \<open>No candidate\<close>

text \<open>
  C4 (still searching). For an authenticated caller \<open>u\<close> whose step 1 and step 2 report no
  error, and with no profile other than the caller's both searching and active, the
  answer is 200 \<open>searching\<close> with the caller's id, \<^verbatim>\<open>matches\<close> is unchanged, the same
  profiles exist, and every profile row of the caller has \<^verbatim>\<open>is_searching\<close> set.
\<close>

theorem no_candidate_searching:
  assumes "req_method req \<noteq> ''OPTIONS''" and "authenticate env req = Caller u"
    and "update_error env = None" and "search_error env = None"
    and "\<forall>p\<in>set (profiles d). is_searching p \<and> is_active p \<longrightarrow> p_id p = u"
  shows "\<exists>d'. find_match env d req =
           (\<lparr>status = 200,
              headers = corsHeaders @ [(''Content-Type'', ''application/json'')],
              body = SearchingBody ''searching'' ''Looking for your perfect match...'' u\<rparr>,
              d') \<and>
           matches d' = matches d \<and>
           map p_id (profiles d') = map p_id (profiles d) \<and>
           (\<forall>p\<in>set (profiles d'). p_id p = u \<longrightarrow> is_searching p)"
proof -
  from assms(3) obtain d1 where step1: "update_is_searching env d u = Inr d1"
    by (simp add: update_is_searching_eq)
  have others: "\<forall>p\<in>set (profiles d1). is_searching p \<and> is_active p \<longrightarrow> p_id p = u"
  proof
    fix p
    assume p: "p \<in> set (profiles d1)"
    let ?f = "\<lambda>p. if p_id p = u
                   then handle_updated_at (pg_now env 0)
                          (p\<lparr>is_searching := True, p_updated_at := date_now env 0\<rparr>)
                   else p"
    from step1 have "profiles d1 = map ?f (profiles d)"
      by (simp add: update_is_searching_eq)
    with p have "p \<in> ?f ` set (profiles d)"
      by (simp only: set_map)
    then obtain q where q: "q \<in> set (profiles d)" "p = ?f q"
      by (rule imageE)
    show "is_searching p \<and> is_active p \<longrightarrow> p_id p = u"
    proof (cases "p_id q = u")
      case True
      with q show ?thesis by (simp add: handle_updated_at_def)
    next
      case False
      with q have "p = q" by simp
      with q(1) assms(5) show ?thesis by blast
    qed
  qed
  with assms(4) have step2: "select_candidates env d1 u = Inr []"
    by (simp add: select_candidates_Nil)
  from assms(1,2) step1 step2
  have "find_match env d req =
          (\<lparr>status = 200,
             headers = corsHeaders @ [(''Content-Type'', ''application/json'')],
             body = SearchingBody ''searching'' ''Looking for your perfect match...'' u\<rparr>,
             d1)"
    by (simp add: find_match_Caller request_match_def json_response_def)
  moreover have "matches d1 = matches d"
    using step1 by (rule update_is_searching_matches)
  moreover have "map p_id (profiles d1) = map p_id (profiles d)"
    using step1 by (rule update_is_searching_ids)
  moreover have "\<forall>p\<in>set (profiles d1). p_id p = u \<longrightarrow> is_searching p"
    using step1 by (blast intro: update_is_searching_flag)
  ultimately show ?thesis by blast
qed

lemma authenticate_bob: "authenticate env0 (post ''tok2'') = Caller ''u2''"
  by (simp add: authenticate_def env0_def post_def)

lemma authenticate_alice: "authenticate env0 (post ''tok1'') = Caller ''u1''"
  by (simp add: authenticate_def env0_def post_def)

theorem no_candidate_searching_witness:
  "update_error env0 = None \<and> search_error env0 = None \<and>
   authenticate env0 (post ''tok1'') = Caller ''u1'' \<and>
   map is_searching (profiles db3) = [False, False] \<and>
   (\<exists>d'. find_match env0 db3 (post ''tok1'') =
      (\<lparr>status = 200,
         headers = corsHeaders @ [(''Content-Type'', ''application/json'')],
         body = SearchingBody ''searching'' ''Looking for your perfect match...'' ''u1''\<rparr>,
         d') \<and>
      matches d' = [] \<and> map p_id (profiles d') = [''u1'', ''u2''] \<and>
      map is_searching (profiles d') = [True, False])"
proof -
  have h: "\<forall>p\<in>set (profiles db3). is_searching p \<and> is_active p \<longrightarrow> p_id p = ''u1''"
    by (simp add: db3_def alice_def bob_def)
  have m: "req_method (post ''tok1'') \<noteq> ''OPTIONS''"
    by (simp add: post_def)
  have e: "update_error env0 = None" "search_error env0 = None"
    by (simp_all add: env0_def)
  have run: "snd (find_match env0 db3 (post ''tok1'')) =
      \<lparr>profiles = [alice\<lparr>is_searching := True, p_updated_at := ''t2''\<rparr>,
                   bob\<lparr>is_searching := False\<rparr>],
       matches = []\<rparr>"
    by (simp add: find_match_def authenticate_def request_match_def env0_def db3_def post_def
        alice_def bob_def update_is_searching_def select_candidates_def limit_1_def
        handle_updated_at_def)
  from no_candidate_searching [OF m authenticate_alice e h] obtain d' where
    d': "find_match env0 db3 (post ''tok1'') =
      (\<lparr>status = 200,
         headers = corsHeaders @ [(''Content-Type'', ''application/json'')],
         body = SearchingBody ''searching'' ''Looking for your perfect match...'' ''u1''\<rparr>,
         d')"
    by blast
  with run have "d' = \<lparr>profiles = [alice\<lparr>is_searching := True, p_updated_at := ''t2''\<rparr>,
                                   bob\<lparr>is_searching := False\<rparr>],
                       matches = []\<rparr>"
    by simp
  with d' e authenticate_alice show ?thesis
    by (simp add: db3_def alice_def bob_def)
qed

subsection \<open>The insert fails\<close>

lemma candidates_after_update:
  "map select_columns
     (filter (\<lambda>p. is_searching p \<and> is_active p \<and> p_id p \<noteq> u)
        (map (\<lambda>p. if p_id p = u
                  then handle_updated_at t (p\<lparr>is_searching := True, p_updated_at := t'\<rparr>)
                  else p) xs)) =
   map select_columns (filter (\<lambda>p. is_searching p \<and> is_active p \<and> p_id p \<noteq> u) xs)"
  by (induction xs) (simp_all add: handle_updated_at_def)

lemma select_candidates_after_update:
  assumes "update_is_searching env' d u = Inr d'"
  shows "select_candidates env'' d' u = select_candidates env'' d u"
proof -
  from assms have "profiles d' =
      map (\<lambda>p. if p_id p = u
                then handle_updated_at (pg_now env' 0)
                       (p\<lparr>is_searching := True, p_updated_at := date_now env' 0\<rparr>)
                else p) (profiles d)"
    by (simp add: update_is_searching_eq)
  then show ?thesis
    by (simp only: select_candidates_def candidates_after_update)
qed

lemma select_candidates_env:
  "search_error env' = search_error env \<Longrightarrow> pick env' = pick env \<Longrightarrow>
   select_candidates env' d u = select_candidates env d u"
  by (simp add: select_candidates_def split: option.splits)

text \<open>
  C5 (failed insert). When the caller \<open>u\<close> is authenticated, steps 1 and 2 succeed with
  a candidate \<open>c\<close>, and the insert of step 5 reports any error (a failure of the store
  or any violated constraint, the unique pair among them), the answer is 500
  \<^verbatim>\<open>Failed to create match\<close>, \<^verbatim>\<open>matches\<close> is what it was before the call, and the state
  left behind is the one after step 1, where every profile row of the caller has
  \<^verbatim>\<open>is_searching\<close> set. From that state a further call of the same caller, with a store
  that reports no error in steps 1 and 2 and makes the same choice, arrives at the
  insert with the same candidate again.
\<close>

theorem insert_failure_leaves_searching:
  assumes "req_method req \<noteq> ''OPTIONS''" and "authenticate env req = Caller u"
    and "update_is_searching env d u = Inr d1"
    and "select_candidates env d1 u = Inr (c # cs)"
    and "insert_match env d1 (match_payload env u c) = Inl e"
  shows "find_match env d req =
           (\<lparr>status = 500,
             headers = corsHeaders @ [(''Content-Type'', ''application/json'')],
             body = ErrorBody ''Failed to create match'' None\<rparr>, d1) \<and>
         matches d1 = matches d \<and>
         map p_id (profiles d1) = map p_id (profiles d) \<and>
         (\<forall>p\<in>set (profiles d1). p_id p = u \<longrightarrow> is_searching p) \<and>
         (\<forall>env'. update_error env' = None \<and> search_error env' = None \<and> pick env' = pick env
            \<longrightarrow> (\<exists>d1'. update_is_searching env' d1 u = Inr d1' \<and>
                       select_candidates env' d1' u = Inr (c # cs)))"
proof -
  from assms have "find_match env d req =
      (\<lparr>status = 500,
        headers = corsHeaders @ [(''Content-Type'', ''application/json'')],
        body = ErrorBody ''Failed to create match'' None\<rparr>, d1)"
    by (simp add: find_match_Caller request_match_def json_response_def)
  moreover have "matches d1 = matches d"
    using assms(3) by (rule update_is_searching_matches)
  moreover have "map p_id (profiles d1) = map p_id (profiles d)"
    using assms(3) by (rule update_is_searching_ids)
  moreover have "\<forall>p\<in>set (profiles d1). p_id p = u \<longrightarrow> is_searching p"
    using assms(3) by (blast intro: update_is_searching_flag)
  moreover have "\<exists>d1'. update_is_searching env' d1 u = Inr d1' \<and>
                   select_candidates env' d1' u = Inr (c # cs)"
    if env': "update_error env' = None \<and> search_error env' = None \<and> pick env' = pick env"
    for env'
  proof -
    from env' obtain d1' where again: "update_is_searching env' d1 u = Inr d1'"
      by (simp add: update_is_searching_eq)
    from assms(4) have "search_error env = None"
      by (simp add: select_candidates_eq)
    with env' have "select_candidates env' d1 u = select_candidates env d1 u"
      by (simp add: select_candidates_env)
    with assms(4) again have "select_candidates env' d1' u = Inr (c # cs)"
      by (simp add: select_candidates_after_update)
    with again show ?thesis by blast
  qed
  ultimately show ?thesis by blast
qed

theorem insert_failure_leaves_searching_witness:
  "insert_match env0 (db0\<lparr>profiles := [alice\<lparr>is_searching := True, p_updated_at := ''t2''\<rparr>, bob],
                         matches := [stored_match Matched]\<rparr>)
     (match_payload env0 ''u1'' (select_columns bob)) = Inl UniqueViolation \<and>
   find_match env0 (db0\<lparr>matches := [stored_match Matched]\<rparr>) (post ''tok1'') =
     (\<lparr>status = 500,
       headers = corsHeaders @ [(''Content-Type'', ''application/json'')],
       body = ErrorBody ''Failed to create match'' None\<rparr>,
      db0\<lparr>profiles := [alice\<lparr>is_searching := True, p_updated_at := ''t2''\<rparr>, bob],
          matches := [stored_match Matched]\<rparr>) \<and>
   find_match (env0\<lparr>insert_error := Some ''timeout''\<rparr>) db0 (post ''tok1'') =
     (\<lparr>status = 500,
       headers = corsHeaders @ [(''Content-Type'', ''application/json'')],
       body = ErrorBody ''Failed to create match'' None\<rparr>,
      db0\<lparr>profiles := [alice\<lparr>is_searching := True, p_updated_at := ''t2''\<rparr>, bob]\<rparr>) \<and>
   matches (snd (find_match env0
      (db0\<lparr>profiles := [alice\<lparr>is_searching := True, p_updated_at := ''t2''\<rparr>, bob]\<rparr>)
      (post ''tok1''))) =
     [\<lparr>m_id = ''m1'', profile1_id = ''u1'', profile2_id = ''u2'', m_status = Matched,
       match_score = Some (85 / 100),
       m_created_at = ''2024-05-01T10:00:00.431+00:00'',
       m_updated_at = ''2024-05-01T10:00:00.432+00:00''\<rparr>]"
proof -
  let ?d = "db0\<lparr>matches := [stored_match Matched]\<rparr>"
  let ?d1 = "db0\<lparr>profiles := [alice\<lparr>is_searching := True, p_updated_at := ''t2''\<rparr>, bob],
                 matches := [stored_match Matched]\<rparr>"
  let ?d1' = "db0\<lparr>profiles := [alice\<lparr>is_searching := True, p_updated_at := ''t2''\<rparr>, bob]\<rparr>"
  let ?env = "env0\<lparr>insert_error := Some ''timeout''\<rparr>"
  have m: "req_method (post ''tok1'') \<noteq> ''OPTIONS''"
    by (simp add: post_def)
  have s1: "update_is_searching env0 ?d ''u1'' = Inr ?d1"
    by (simp add: update_is_searching_def env0_def db0_def alice_def bob_def
        handle_updated_at_def)
  have s2: "select_candidates env0 ?d1 ''u1'' = Inr [select_columns bob]"
    by (simp add: select_candidates_def limit_1_def env0_def db0_def alice_def bob_def)
  have s5: "insert_match env0 ?d1 (match_payload env0 ''u1'' (select_columns bob)) =
      Inl UniqueViolation"
    by (simp add: insert_match_def new_row_def match_payload_def select_columns_def
        create_mutual_match_fires_def stored_match_def env0_def db0_def alice_def bob_def
        Let_def)
  have a': "authenticate ?env (post ''tok1'') = Caller ''u1''"
    by (simp add: authenticate_def env0_def post_def)
  have s1': "update_is_searching ?env db0 ''u1'' = Inr ?d1'"
    by (simp add: update_is_searching_def env0_def db0_def alice_def bob_def
        handle_updated_at_def)
  have s2': "select_candidates ?env ?d1' ''u1'' = Inr [select_columns bob]"
    by (simp add: select_candidates_def limit_1_def env0_def db0_def alice_def bob_def)
  have s5': "insert_match ?env ?d1' (match_payload ?env ''u1'' (select_columns bob)) =
      Inl (External ''timeout'')"
    by (simp add: insert_match_def)
  have retry: "matches (snd (find_match env0 ?d1' (post ''tok1''))) =
     [\<lparr>m_id = ''m1'', profile1_id = ''u1'', profile2_id = ''u2'', m_status = Matched,
       match_score = Some (85 / 100),
       m_created_at = ''2024-05-01T10:00:00.431+00:00'',
       m_updated_at = ''2024-05-01T10:00:00.432+00:00''\<rparr>]"
    by (simp add: find_match_def authenticate_def request_match_def env0_def db0_def post_def
        alice_def bob_def update_is_searching_def select_candidates_def limit_1_def
        select_columns_def insert_match_def new_row_def create_mutual_match_fires_def
        match_payload_def clear_is_searching_def handle_updated_at_def Let_def)
  show ?thesis
    using insert_failure_leaves_searching [OF m authenticate_alice s1 s2 s5]
      insert_failure_leaves_searching [OF m a' s1' s2' s5'] s5 retry
    by simp
qed

subsection \<open>After the insert\<close>

lemma insert_match_profiles:
  "insert_match env d v = Inr (new, d2) \<Longrightarrow> profiles d2 = profiles d"
  by (drule insert_match_Inr) simp

lemma clear_is_searching_flag:
  assumes "clear_is_searching env d ids = Inr d3" and "p \<in> set (profiles d3)"
    and "p_id p \<in> set ids"
  shows "\<not> is_searching p"
proof -
  let ?f = "\<lambda>p. if p_id p \<in> set ids
                 then handle_updated_at (pg_now env 1)
                        (p\<lparr>is_searching := False, p_updated_at := date_now env 3\<rparr>)
                 else p"
  from assms(1) have "profiles d3 = map ?f (profiles d)"
    by (simp add: clear_is_searching_eq)
  with assms(2) have "p \<in> ?f ` set (profiles d)"
    by (simp only: set_map)
  then obtain q where q: "p = ?f q"
    by (rule imageE)
  show ?thesis
  proof (cases "p_id q \<in> set ids")
    case True
    with q show ?thesis by (simp add: handle_updated_at_def)
  next
    case False
    with q assms(3) show ?thesis by simp
  qed
qed

lemma clear_is_searching_ids:
  "clear_is_searching env d ids = Inr d3 \<Longrightarrow> map p_id (profiles d3) = map p_id (profiles d)"
  by (simp add: clear_is_searching_eq handle_updated_at_def comp_def)

text \<open>
  C6 (flags cleared). When the handler answers \<open>matched\<close> and the write of step 6
  reports no error, the caller and the matched user both have a profile row, and every
  profile row of either of them has \<^verbatim>\<open>is_searching\<close> false afterwards.
\<close>

theorem flags_cleared:
  assumes "find_match env d req = (resp, d')" and "body resp = MatchedBody st msg mj"
    and "clear_error env = None"
  shows "\<exists>u. authenticate env req = Caller u \<and>
           u \<in> set (map p_id (profiles d')) \<and>
           c_id (j_matchedUser mj) \<in> set (map p_id (profiles d')) \<and>
           (\<forall>p\<in>set (profiles d').
              p_id p = u \<or> p_id p = c_id (j_matchedUser mj) \<longrightarrow> \<not> is_searching p)"
proof -
  from assms obtain u where u: "authenticate env req = Caller u"
    and rm: "request_match env d u = (resp, d')"
    using find_match_Matched by blast
  from request_match_Matched [OF rm assms(2)] obtain d1 c new d2 where
    step1: "update_is_searching env d u = Inr d1" and
    step2: "select_candidates env d1 u = Inr [c]" and
    step5: "insert_match env d1 (match_payload env u c) = Inr (new, d2)" and
    mj: "mj = \<lparr>j_id = m_id new, j_matchedUser = c, j_matchScore = match_score new,
               j_createdAt = m_created_at new\<rparr>" and
    d': "d' = (case clear_is_searching env d2 [u, c_id c] of Inl e \<Rightarrow> d2 | Inr d3 \<Rightarrow> d3)"
    by blast
  from assms(3) obtain d3 where step6: "clear_is_searching env d2 [u, c_id c] = Inr d3"
    by (simp add: clear_is_searching_eq)
  with d' have d3: "d' = d3" by simp
  from insert_match_Inr [OF step5]
  have pair: "{profile1_id new, profile2_id new} \<subseteq> set (map p_id (profiles d1))"
    and new: "new = new_row env (match_payload env u c)"
    by blast+
  have "{profile1_id new, profile2_id new} = {u, c_id c}"
    by (auto simp: new new_row_payload min_def max_def)
  with pair have "{u, c_id c} \<subseteq> set (map p_id (profiles d2))"
    by (simp add: insert_match_profiles [OF step5])
  then have ex: "u \<in> set (map p_id (profiles d'))" "c_id c \<in> set (map p_id (profiles d'))"
    by (simp_all add: d3 clear_is_searching_ids [OF step6])
  have "\<forall>p\<in>set (profiles d'). p_id p = u \<or> p_id p = c_id c \<longrightarrow> \<not> is_searching p"
    using clear_is_searching_flag [OF step6] by (auto simp: d3)
  with u ex mj show ?thesis by auto
qed

theorem flags_cleared_witness:
  "clear_error env0 = None \<and>
   map is_searching (profiles db0) = [False, True] \<and>
   body (fst (find_match env0 db0 (post ''tok1''))) =
     MatchedBody ''matched'' ''Match found!''
       \<lparr>j_id = ''m1'', j_matchedUser = select_columns bob,
        j_matchScore = Some (85 / 100),
        j_createdAt = ''2024-05-01T10:00:00.431+00:00''\<rparr> \<and>
   map (\<lambda>p. (p_id p, is_searching p)) (profiles (snd (find_match env0 db0 (post ''tok1'')))) =
     [(''u1'', False), (''u2'', False)] \<and>
   (\<exists>u. authenticate env0 (post ''tok1'') = Caller u \<and>
      u \<in> set (map p_id (profiles (snd (find_match env0 db0 (post ''tok1''))))) \<and>
      ''u2'' \<in> set (map p_id (profiles (snd (find_match env0 db0 (post ''tok1''))))) \<and>
      (\<forall>p\<in>set (profiles (snd (find_match env0 db0 (post ''tok1'')))).
          p_id p = u \<or> p_id p = ''u2'' \<longrightarrow> \<not> is_searching p))"
proof -
  have e: "clear_error env0 = None"
    by (simp add: env0_def)
  have c: "c_id (select_columns bob) = ''u2''"
    by (simp add: bob_def)
  have s: "map is_searching (profiles db0) = [False, True]"
    by (simp add: db0_def alice_def bob_def)
  have after: "map (\<lambda>p. (p_id p, is_searching p))
      (profiles (snd (find_match env0 db0 (post ''tok1'')))) = [(''u1'', False), (''u2'', False)]"
    by (simp add: find_match_alice alice_def bob_def)
  from flags_cleared [OF find_match_alice body_json_response e] c e s after show ?thesis
    by (simp add: find_match_alice)
qed

lemma select_candidates_fields:
  assumes "select_candidates env d u = Inr (c # cs)"
  shows "\<exists>p\<in>set (profiles d). p_id p \<noteq> u \<and> is_active p \<and> is_searching p \<and>
           c = \<lparr>c_id = p_id p, c_name = p_name p, c_bio = p_bio p, c_age = p_age p,
                c_location = p_location p, c_gender = p_gender p,
                c_interests = p_interests p\<rparr>"
proof -
  let ?xs = "filter (\<lambda>p. is_searching p \<and> is_active p \<and> p_id p \<noteq> u) (profiles d)"
  from assms have "limit_1 (pick env) (map select_columns ?xs) = c # cs"
    by (simp add: select_candidates_eq)
  then have "cs = [] \<and> c \<in> set (map select_columns ?xs)"
    by (rule limit_1_Cons)
  then have "c \<in> select_columns ` set ?xs"
    by (simp only: set_map)
  then obtain p where p: "p \<in> set ?xs" and c: "c = select_columns p"
    by (rule imageE)
  from p have "p \<in> set (profiles d)" "p_id p \<noteq> u" "is_active p" "is_searching p"
    by simp_all
  moreover from c have "c = \<lparr>c_id = p_id p, c_name = p_name p, c_bio = p_bio p,
      c_age = p_age p, c_location = p_location p, c_gender = p_gender p,
      c_interests = p_interests p\<rparr>"
    by (simp only: select_columns_def)
  ultimately show ?thesis by blast
qed

lemma update_is_searching_others:
  assumes "update_is_searching env d u = Inr d1" and "p \<in> set (profiles d1)"
    and "p_id p \<noteq> u"
  shows "p \<in> set (profiles d)"
proof -
  let ?f = "\<lambda>p. if p_id p = u
                 then handle_updated_at (pg_now env 0)
                        (p\<lparr>is_searching := True, p_updated_at := date_now env 0\<rparr>)
                 else p"
  from assms(1) have "profiles d1 = map ?f (profiles d)"
    by (simp add: update_is_searching_eq)
  with assms(2) have "p \<in> ?f ` set (profiles d)"
    by (simp only: set_map)
  then obtain q where q: "q \<in> set (profiles d)" "p = ?f q"
    by (rule imageE)
  show ?thesis
  proof (cases "p_id q = u")
    case True
    with q(2) have "p_id p = u" by (simp add: handle_updated_at_def)
    with assms(3) show ?thesis by simp
  next
    case False
    with q show ?thesis by simp
  qed
qed

text \<open>
  C7 (step 6 fails). When the insert of step 5 stored the row \<open>new\<close> and the write of
  step 6 reports an error, the answer is still 200 \<open>matched\<close>. It carries the key of
  \<open>new\<close>, the score and the creation time of \<open>new\<close> as the store holds them, and as the
  matched user the id, name, bio, age, location, gender and interests of a profile other
  than the caller's that was active and searching before the call. The state returned
  is the one after the insert.
\<close>

theorem clear_failure_not_raised:
  assumes "req_method req \<noteq> ''OPTIONS''" and "authenticate env req = Caller u"
    and "update_is_searching env d u = Inr d1"
    and "select_candidates env d1 u = Inr (c # cs)"
    and "insert_match env d1 (match_payload env u c) = Inr (new, d2)"
    and "clear_is_searching env d2 [u, c_id c] = Inl e"
  shows "find_match env d req =
           (\<lparr>status = 200,
             headers = corsHeaders @ [(''Content-Type'', ''application/json'')],
             body = MatchedBody ''matched'' ''Match found!''
                      \<lparr>j_id = m_id new, j_matchedUser = c,
                       j_matchScore = match_score new,
                       j_createdAt = m_created_at new\<rparr>\<rparr>, d2) \<and>
         matches d2 = matches d @ [new] \<and>
         m_id new = uuid_generate_v4 env \<and>
         match_score new = Some (85 / 100) \<and>
         m_created_at new = timestamptz_out env (date_now env 1) \<and>
         (\<exists>p\<in>set (profiles d). p_id p \<noteq> u \<and> is_active p \<and> is_searching p \<and>
            c = \<lparr>c_id = p_id p, c_name = p_name p, c_bio = p_bio p, c_age = p_age p,
                 c_location = p_location p, c_gender = p_gender p,
                 c_interests = p_interests p\<rparr>)"
proof -
  from assms have "find_match env d req =
      (json_response 200
         (MatchedBody ''matched'' ''Match found!''
            \<lparr>j_id = m_id new, j_matchedUser = c, j_matchScore = match_score new,
             j_createdAt = m_created_at new\<rparr>), d2)"
    by (simp add: find_match_Caller request_match_def)
  moreover from insert_match_Inr [OF assms(5)]
  have new: "new = new_row env (match_payload env u c)"
    and d2: "d2 = d1\<lparr>matches := matches d1 @ [new]\<rparr>"
    by blast+
  have "matches d2 = matches d @ [new]"
    by (simp add: d2 update_is_searching_matches [OF assms(3)])
  moreover have "m_id new = uuid_generate_v4 env" "match_score new = Some (85 / 100)"
    "m_created_at new = timestamptz_out env (date_now env 1)"
    by (simp_all add: new new_row_payload)
  moreover have "\<exists>p\<in>set (profiles d). p_id p \<noteq> u \<and> is_active p \<and> is_searching p \<and>
      c = \<lparr>c_id = p_id p, c_name = p_name p, c_bio = p_bio p, c_age = p_age p,
           c_location = p_location p, c_gender = p_gender p,
           c_interests = p_interests p\<rparr>"
  proof -
    from select_candidates_fields [OF assms(4)] obtain p where
      p: "p \<in> set (profiles d1)" "p_id p \<noteq> u" "is_active p" "is_searching p" and
      c: "c = \<lparr>c_id = p_id p, c_name = p_name p, c_bio = p_bio p, c_age = p_age p,
               c_location = p_location p, c_gender = p_gender p,
               c_interests = p_interests p\<rparr>"
      by blast
    from update_is_searching_others [OF assms(3) p(1,2)] have "p \<in> set (profiles d)" .
    with p c show ?thesis by blast
  qed
  ultimately show ?thesis
    by (simp add: json_response_def)
qed

theorem clear_failure_not_raised_witness:
  "clear_is_searching (env0\<lparr>clear_error := Some ''deadlock''\<rparr>)
     (db0\<lparr>profiles := [alice\<lparr>is_searching := True, p_updated_at := ''t2''\<rparr>, bob],
          matches := [\<lparr>m_id = ''m1'', profile1_id = ''u1'', profile2_id = ''u2'',
                       m_status = Matched, match_score = Some (85 / 100),
                       m_created_at = ''2024-05-01T10:00:00.431+00:00'',
                       m_updated_at = ''2024-05-01T10:00:00.432+00:00''\<rparr>]\<rparr>)
     [''u1'', ''u2''] = Inl (External ''deadlock'') \<and>
   date_now (env0\<lparr>clear_error := Some ''deadlock''\<rparr>) 1 = ''2024-05-01T10:00:00.431Z'' \<and>
   find_match (env0\<lparr>clear_error := Some ''deadlock''\<rparr>) db0 (post ''tok1'') =
     (\<lparr>status = 200,
       headers = corsHeaders @ [(''Content-Type'', ''application/json'')],
       body = MatchedBody ''matched'' ''Match found!''
                \<lparr>j_id = ''m1'',
                 j_matchedUser =
                   \<lparr>c_id = ''u2'', c_name = ''Bob'', c_bio = None, c_age = Some 32,
                    c_location = Some ''Pune'', c_gender = Some ''male'',
                    c_interests = ''[]''\<rparr>,
                 j_matchScore = Some (85 / 100),
                 j_createdAt = ''2024-05-01T10:00:00.431+00:00''\<rparr>\<rparr>,
      db0\<lparr>profiles := [alice\<lparr>is_searching := True, p_updated_at := ''t2''\<rparr>, bob],
          matches := [\<lparr>m_id = ''m1'', profile1_id = ''u1'', profile2_id = ''u2'',
                       m_status = Matched, match_score = Some (85 / 100),
                       m_created_at = ''2024-05-01T10:00:00.431+00:00'',
                       m_updated_at = ''2024-05-01T10:00:00.432+00:00''\<rparr>]\<rparr>)"
proof -
  let ?env = "env0\<lparr>clear_error := Some ''deadlock''\<rparr>"
  let ?bob = "\<lparr>c_id = ''u2'', c_name = ''Bob'', c_bio = None, c_age = Some 32,
               c_location = Some ''Pune'', c_gender = Some ''male'', c_interests = ''[]''\<rparr>"
  let ?new = "\<lparr>m_id = ''m1'', profile1_id = ''u1'', profile2_id = ''u2'',
               m_status = Matched, match_score = Some (85 / 100),
               m_created_at = ''2024-05-01T10:00:00.431+00:00'',
               m_updated_at = ''2024-05-01T10:00:00.432+00:00''\<rparr>"
  let ?d1 = "db0\<lparr>profiles := [alice\<lparr>is_searching := True, p_updated_at := ''t2''\<rparr>, bob]\<rparr>"
  let ?d2 = "db0\<lparr>profiles := [alice\<lparr>is_searching := True, p_updated_at := ''t2''\<rparr>, bob],
                 matches := [?new]\<rparr>"
  have m: "req_method (post ''tok1'') \<noteq> ''OPTIONS''"
    by (simp add: post_def)
  have a: "authenticate ?env (post ''tok1'') = Caller ''u1''"
    by (simp add: authenticate_def env0_def post_def)
  have t: "date_now ?env 1 = ''2024-05-01T10:00:00.431Z''"
    by (simp add: env0_def)
  have s1: "update_is_searching ?env db0 ''u1'' = Inr ?d1"
    by (simp add: update_is_searching_def env0_def db0_def alice_def bob_def
        handle_updated_at_def)
  have s2: "select_candidates ?env ?d1 ''u1'' = Inr [?bob]"
    by (simp add: select_candidates_def limit_1_def select_columns_def env0_def db0_def
        alice_def bob_def)
  have s5: "insert_match ?env ?d1 (match_payload ?env ''u1'' ?bob) = Inr (?new, ?d2)"
    by (simp add: insert_match_def new_row_def match_payload_def
        create_mutual_match_fires_def env0_def db0_def alice_def bob_def Let_def)
  have s6: "clear_is_searching ?env ?d2 [''u1'', ''u2''] = Inl (External ''deadlock'')"
    by (simp add: clear_is_searching_def)
  then have s6': "clear_is_searching ?env ?d2 [''u1'', c_id ?bob] = Inl (External ''deadlock'')"
    by simp
  show ?thesis
    using clear_failure_not_raised [OF m a s1 s2 s5 s6'] s6 t
    by simp
qed

subsection \<open>The catch\<close>

text \<open>
  C8 as it is written (only a generic message, no detail of the cause) does not hold:
  when the identity service rejects with an \<^verbatim>\<open>Error\<close>, the message of that error is
  sent to the caller in the field \<^verbatim>\<open>details\<close>.
\<close>

theorem internal_error_detail_leaked:
  "status (fst (find_match env0 db0 (post ''tok3''))) = 500 \<and>
   body (fst (find_match env0 db0 (post ''tok3''))) =
     ErrorBody ''Internal server error'' (Some ''connect ECONNREFUSED 10.0.0.7:9999'')"
  by (simp add: find_match_def authenticate_def catch_response_def json_response_def
      env0_def post_def)

text \<open>
  C8, amended. Whenever a value \<open>t\<close> is thrown inside the \<^verbatim>\<open>try\<close>, the answer is 500 with
  the fixed text \<^verbatim>\<open>Internal server error\<close> and a field \<^verbatim>\<open>details\<close> that holds the message
  of \<open>t\<close> when \<open>t\<close> is an \<^verbatim>\<open>Error\<close> and \<^verbatim>\<open>Unknown error\<close> otherwise; the body has no other
  field.
\<close>

theorem catch_response_details:
  assumes "req_method req \<noteq> ''OPTIONS''" and "authenticate env req = Faulted t"
  shows "fst (find_match env d req) =
           \<lparr>status = 500,
            headers = corsHeaders @ [(''Content-Type'', ''application/json'')],
            body = ErrorBody ''Internal server error''
                     (Some (case t of ErrorObj message \<Rightarrow> message
                                    | NonError \<Rightarrow> ''Unknown error''))\<rparr>"
  using assms by (simp add: find_match_def catch_response_def json_response_def)

theorem catch_response_details_witness:
  "authenticate env0 (post ''tok3'') =
     Faulted (ErrorObj ''connect ECONNREFUSED 10.0.0.7:9999'') \<and>
   authenticate (env0\<lparr>getUser := \<lambda>token. PromiseRejected NonError\<rparr>) (post ''tok1'') =
     Faulted NonError \<and>
   fst (find_match env0 db0 (post ''tok3'')) =
     \<lparr>status = 500,
      headers = corsHeaders @ [(''Content-Type'', ''application/json'')],
      body = ErrorBody ''Internal server error''
               (Some ''connect ECONNREFUSED 10.0.0.7:9999'')\<rparr> \<and>
   fst (find_match (env0\<lparr>getUser := \<lambda>token. PromiseRejected NonError\<rparr>) db0 (post ''tok1'')) =
     \<lparr>status = 500,
      headers = corsHeaders @ [(''Content-Type'', ''application/json'')],
      body = ErrorBody ''Internal server error'' (Some ''Unknown error'')\<rparr>"
proof -
  have m: "req_method (post tok) \<noteq> ''OPTIONS''" for tok
    by (simp add: post_def)
  have a: "authenticate env0 (post ''tok3'') =
      Faulted (ErrorObj ''connect ECONNREFUSED 10.0.0.7:9999'')"
    by (simp add: authenticate_def env0_def post_def)
  have b: "authenticate (env0\<lparr>getUser := \<lambda>token. PromiseRejected NonError\<rparr>) (post ''tok1'') =
      Faulted NonError"
    by (simp add: authenticate_def post_def)
  show ?thesis
    using catch_response_details [OF m a, of db0] catch_response_details [OF m b, of db0] a b
    by simp
qed

subsection \<open>Inactive profiles\<close>

lemma matched_candidate_is_active:
  assumes "find_match env d req = (resp, d')" and "body resp = MatchedBody st msg mj"
  shows "\<exists>p\<in>set (profiles d). p_id p = c_id (j_matchedUser mj) \<and> is_active p"
proof -
  from assms obtain u where rm: "request_match env d u = (resp, d')"
    using find_match_Matched by blast
  from request_match_Matched [OF rm assms(2)] obtain d1 c new d2 where
    step1: "update_is_searching env d u = Inr d1" and
    step2: "select_candidates env d1 u = Inr [c]" and
    step5: "insert_match env d1 (match_payload env u c) = Inr (new, d2)" and
    mj: "mj = \<lparr>j_id = m_id new, j_matchedUser = c, j_matchScore = match_score new,
               j_createdAt = m_created_at new\<rparr>" and
    d': "d' = (case clear_is_searching env d2 [u, c_id c] of Inl e \<Rightarrow> d2 | Inr d3 \<Rightarrow> d3)"
    by blast
  from select_candidates_Cons [OF step2] obtain p where
    p: "p \<in> set (profiles d1)" "select_columns p = c" "is_active p"
    by blast
  then have "(c_id c, True) \<in> set (zip (map p_id (profiles d1)) (map is_active (profiles d1)))"
    by (force simp: zip_map_map set_zip in_set_conv_nth)
  then have "(c_id c, True) \<in> set (zip (map p_id (profiles d)) (map is_active (profiles d)))"
    by (simp only: update_is_searching_ids [OF step1] update_is_searching_active [OF step1])
  then have "\<exists>q\<in>set (profiles d). p_id q = c_id c \<and> is_active q"
    by (force simp: zip_map_map set_zip in_set_conv_nth)
  with mj show ?thesis by simp
qed

text \<open>
  C9 (only active profiles). The matched user is always an active profile, but the
  caller is not looked at: Alice, whose profile is inactive, calls while Bob is active
  and searching, and the handler answers \<open>matched\<close> and stores a row for the two.
\<close>

theorem inactive_caller_is_matched:
  "map (\<lambda>p. (p_id p, is_active p)) (profiles db2) = [(''u1'', False), (''u2'', True)] \<and>
   authenticate env0 (post ''tok1'') = Caller ''u1'' \<and>
   find_match env0 db2 (post ''tok1'') =
     (json_response 200
        (MatchedBody ''matched'' ''Match found!''
           \<lparr>j_id = ''m1'', j_matchedUser = select_columns bob,
            j_matchScore = Some (85 / 100),
            j_createdAt = ''2024-05-01T10:00:00.431+00:00''\<rparr>),
      \<lparr>profiles = [alice\<lparr>is_active := False, p_updated_at := ''t2''\<rparr>,
                   bob\<lparr>is_searching := False, p_updated_at := ''t2''\<rparr>],
       matches = [\<lparr>m_id = ''m1'', profile1_id = ''u1'', profile2_id = ''u2'',
                   m_status = Matched, match_score = Some (85 / 100),
                   m_created_at = ''2024-05-01T10:00:00.431+00:00'',
                   m_updated_at = ''2024-05-01T10:00:00.432+00:00''\<rparr>]\<rparr>)"
  by (simp add: find_match_def authenticate_def request_match_def env0_def db2_def post_def
      alice_def bob_def update_is_searching_def select_candidates_def limit_1_def
      select_columns_def insert_match_def new_row_def create_mutual_match_fires_def
      match_payload_def clear_is_searching_def handle_updated_at_def Let_def)

subsection \<open>A pair that is already stored\<close>

lemma insert_match_existing_pair:
  assumes "r \<in> set (matches d)" and "profile1_id r = i_profile1_id v"
    and "profile2_id r = i_profile2_id v"
  shows "\<exists>e. insert_match env d v = Inl e"
proof (cases "insert_error env")
  case (Some e)
  then show ?thesis by (simp add: insert_match_def)
next
  case None
  from assms have "(profile1_id (new_row env v), profile2_id (new_row env v))
      \<in> set (map (\<lambda>r. (profile1_id r, profile2_id r)) (matches d))"
    by (force simp: new_row_def)
  with None show ?thesis
    by (simp add: insert_match_def Let_def)
qed

lemma match_payload_pair:
  "i_profile1_id (match_payload env u c) = min u (c_id c)"
  "i_profile2_id (match_payload env u c) = max u (c_id c)"
  by (auto simp: match_payload_def Let_def min_def max_def)

text \<open>
  C10 (a stored pair blocks). When \<^verbatim>\<open>matches\<close> holds a row \<open>r\<close>, of any status, for the
  ordered pair of the caller \<open>u\<close> and the candidate \<open>c\<close> that step 2 returns, the answer is
  500 \<^verbatim>\<open>Failed to create match\<close> and \<^verbatim>\<open>matches\<close> is unchanged.
\<close>

theorem existing_pair_blocks:
  assumes "req_method req \<noteq> ''OPTIONS''" and "authenticate env req = Caller u"
    and "update_is_searching env d u = Inr d1"
    and "select_candidates env d1 u = Inr (c # cs)"
    and "r \<in> set (matches d)"
    and "profile1_id r = min u (c_id c)" and "profile2_id r = max u (c_id c)"
  shows "find_match env d req =
           (\<lparr>status = 500,
             headers = corsHeaders @ [(''Content-Type'', ''application/json'')],
             body = ErrorBody ''Failed to create match'' None\<rparr>, d1) \<and>
         matches d1 = matches d"
proof -
  have m: "matches d1 = matches d"
    using assms(3) by (rule update_is_searching_matches)
  with assms(5) have "r \<in> set (matches d1)" by simp
  with assms(6,7) obtain e where "insert_match env d1 (match_payload env u c) = Inl e"
    using insert_match_existing_pair [of r d1 "match_payload env u c" env]
    by (auto simp: match_payload_pair)
  with assms(1-4) have "find_match env d req =
      (\<lparr>status = 500,
        headers = corsHeaders @ [(''Content-Type'', ''application/json'')],
        body = ErrorBody ''Failed to create match'' None\<rparr>, d1)"
    by (simp add: find_match_Caller request_match_def json_response_def)
  with m show ?thesis by simp
qed

theorem existing_pair_blocks_witness:
  "\<forall>st. m_status (stored_match st) = st \<and>
     find_match env0 (db0\<lparr>matches := [stored_match st]\<rparr>) (post ''tok1'') =
       (\<lparr>status = 500,
         headers = corsHeaders @ [(''Content-Type'', ''application/json'')],
         body = ErrorBody ''Failed to create match'' None\<rparr>,
        db0\<lparr>profiles := [alice\<lparr>is_searching := True, p_updated_at := ''t2''\<rparr>, bob],
            matches := [stored_match st]\<rparr>)"
proof
  fix st
  let ?d = "db0\<lparr>matches := [stored_match st]\<rparr>"
  let ?d1 = "db0\<lparr>profiles := [alice\<lparr>is_searching := True, p_updated_at := ''t2''\<rparr>, bob],
                 matches := [stored_match st]\<rparr>"
  have m: "req_method (post ''tok1'') \<noteq> ''OPTIONS''"
    by (simp add: post_def)
  have s1: "update_is_searching env0 ?d ''u1'' = Inr ?d1"
    by (simp add: update_is_searching_def env0_def db0_def alice_def bob_def
        handle_updated_at_def)
  have s2: "select_candidates env0 ?d1 ''u1'' = Inr [select_columns bob]"
    by (simp add: select_candidates_def limit_1_def env0_def db0_def alice_def bob_def)
  have r: "stored_match st \<in> set (matches ?d)"
    by simp
  have p: "profile1_id (stored_match st) = min ''u1'' (c_id (select_columns bob))"
    "profile2_id (stored_match st) = max ''u1'' (c_id (select_columns bob))"
    by (simp_all add: stored_match_def bob_def min_def max_def)
  show "m_status (stored_match st) = st \<and>
     find_match env0 ?d (post ''tok1'') =
       (\<lparr>status = 500,
         headers = corsHeaders @ [(''Content-Type'', ''application/json'')],
         body = ErrorBody ''Failed to create match'' None\<rparr>, ?d1)"
    using existing_pair_blocks [OF m authenticate_alice s1 s2 r p]
    by (simp add: stored_match_def)
qed


end
